theory Spec2Isabelle
  imports Main "HOL-Library.AList"
begin

section \<open>report/controls.go: node controls and the control catalog\<close>

subsection \<open>Time\<close>

text \<open>
  A Go \<open>time.Time\<close> is modelled by the instant it denotes: an integer count of
  nanoseconds relative to the zero value of \<open>time.Time\<close> (January 1, year 1, UTC), so
  the zero value is \<open>0\<close> and instants before it are negative. \<open>Time.Before\<close>
  compares instants.
\<close>

type_synonym time = int

definition zero_time :: time where
  "zero_time = 0"

definition Before :: "time \<Rightarrow> time \<Rightarrow> bool" where
  "Before t u = (t < u)"

subsection \<open>StringSet\<close>

text \<open>
  Modelled from the spec: the type \<open>StringSet\<close>, declared in a file missing from the
  sources. The spec calls it a "set of identifiers" that goes over the wire as a
  "sequence of string identifiers"; a value is the sequence of its members.
\<close>

type_synonym StringSet = "string list"

text \<open>
  Modelled from the spec: \<open>MakeStringSet\<close>, missing from the sources. With no
  argument it is the empty set.
\<close>

definition MakeStringSet :: StringSet where
  "MakeStringSet = []"

text \<open>
  Modelled from the spec: \<open>StringSet.Add\<close>, missing from the sources. The spec asks
  of the string set "add-returning-new-set and union"; the result holds the members of
  the receiver and the given identifiers, each once more at most.
\<close>

definition StringSet_Add :: "StringSet \<Rightarrow> string list \<Rightarrow> StringSet" where
  "StringSet_Add s strs = fold List.insert strs s"

subsection \<open>NodeControls\<close>

record NodeControls =
  Timestamp :: time
  Controls :: StringSet

definition emptyNodeControls :: NodeControls where
  "emptyNodeControls = \<lparr>Timestamp = zero_time, Controls = MakeStringSet\<rparr>"

definition MakeNodeControls :: NodeControls where
  "MakeNodeControls = emptyNodeControls"

definition NodeControls_Merge :: "NodeControls \<Rightarrow> NodeControls \<Rightarrow> NodeControls" where
  "NodeControls_Merge nc other =
     (if Before (Timestamp nc) (Timestamp other) then other else nc)"

text \<open>
  \<open>NodeControls.Add\<close> reads the process clock (\<open>mtime.Now()\<close>); the reading it gets
  is the argument \<open>now\<close>.
\<close>

definition NodeControls_Add :: "time \<Rightarrow> NodeControls \<Rightarrow> string list \<Rightarrow> NodeControls" where
  "NodeControls_Add now nc ids =
     \<lparr>Timestamp = now, Controls = StringSet_Add (Controls nc) ids\<rparr>"

subsection \<open>The control catalog\<close>

text \<open>\<open>Rank\<close> is a Go \<open>int\<close>; the code stores it and never computes with it.\<close>

record Control =
  ID :: string
  Human :: string
  Icon :: string
  Rank :: int

text \<open>
  \<open>type Controls map[string]Control\<close>. A Go map value is a reference to a map object
  (or nil), and \<open>result[k] = v\<close> writes into the object, so the objects live in a
  heap: the list of the map objects allocated so far, an object's address being its
  index. A map object is the list of its entries, in the order \<open>range\<close> visits them;
  its keys are distinct.
\<close>

type_synonym map_obj = "(string \<times> Control) list"

type_synonym heap = "map_obj list"

type_synonym Controls = "nat option"

definition entries :: "heap \<Rightarrow> Controls \<Rightarrow> map_obj" where
  "entries h cs =
     (case cs of None \<Rightarrow> [] | Some a \<Rightarrow> if a < length h then h ! a else [])"

definition lookup :: "heap \<Rightarrow> Controls \<Rightarrow> string \<Rightarrow> Control option" where
  "lookup h cs k = map_of (entries h cs) k"

definition valid_ref :: "heap \<Rightarrow> Controls \<Rightarrow> bool" where
  "valid_ref h cs = (case cs of None \<Rightarrow> True | Some a \<Rightarrow> a < length h)"

definition wf_heap :: "heap \<Rightarrow> bool" where
  "wf_heap h = list_all (\<lambda>m. distinct (map fst m)) h"

text \<open>\<open>Controls{}\<close>: a fresh, empty map object.\<close>

definition new_map :: "heap \<Rightarrow> nat \<times> heap" where
  "new_map h = (length h, h @ [[]])"

text \<open>\<open>result[k] = v\<close> on the object at address \<open>a\<close>.\<close>

definition store :: "nat \<Rightarrow> string \<times> Control \<Rightarrow> heap \<Rightarrow> heap" where
  "store a kv h = h[a := AList.update (fst kv) (snd kv) (h ! a)]"

text \<open>\<open>for k, v := range m { result[k] = v }\<close>, over the entries of \<open>m\<close>.\<close>

definition store_all :: "nat \<Rightarrow> map_obj \<Rightarrow> heap \<Rightarrow> heap" where
  "store_all a kvs h = fold (store a) kvs h"

definition Controls_Copy :: "heap \<Rightarrow> Controls \<Rightarrow> nat \<times> heap" where
  "Controls_Copy h cs =
     (case new_map h of (result, h1) \<Rightarrow> (result, store_all result (entries h1 cs) h1))"

definition Controls_Merge :: "heap \<Rightarrow> Controls \<Rightarrow> Controls \<Rightarrow> Controls \<times> heap" where
  "Controls_Merge h cs other =
     (case Controls_Copy h cs of
        (result, h1) \<Rightarrow> (Some result, store_all result (entries h1 other) h1))"

subsection \<open>Panics\<close>

text \<open>
  A panic is an error result: an explicit \<open>panic\<close> with its message, the reader
  running out of input, the reader finding a value of another kind than the one asked
  for, and an index out of range.
\<close>

datatype error =
    Panic string
  | UnexpectedEOF
  | TypeMismatch
  | IndexOutOfRange

subsection \<open>The disabled JSON entry points\<close>

definition MarshalJSON :: "NodeControls \<Rightarrow> error + string" where
  "MarshalJSON nc = Inl (Panic ''MarshalJSON shouldn't be used, use CodecEncodeSelf instead'')"

definition UnmarshalJSON :: "NodeControls \<Rightarrow> string \<Rightarrow> error + NodeControls" where
  "UnmarshalJSON nc b = Inl (Panic ''UnmarshalJSON shouldn't be used, use CodecDecodeSelf instead'')"

subsection \<open>The wire and the codec's reader\<close>

text \<open>
  The codec library (\<open>github.com/ugorji/go/codec\<close>) is outside the repository. Its
  decoder is a reader over a stream of encoded values; what the code relies on is
  modelled here, independent of the byte format. A wire value is nil, an integer, a
  string, an array, or a map written either with its length or, with length unknown,
  closed by a break marker. The reader holds the values still to be read. Opening a
  map puts its keys and values, in order, at the front of the stream.
\<close>

datatype wire =
    WNil
  | WInt int
  | WStr string
  | WArr "wire list"
  | WMap "(wire \<times> wire) list"
  | WMapIndef "(wire \<times> wire) list"

datatype item = Val wire | Break

type_synonym reader = "item list"

fun flatten :: "(wire \<times> wire) list \<Rightarrow> item list" where
  "flatten [] = []"
| "flatten ((k, v) # kvs) = Val k # Val v # flatten kvs"

text \<open>
  Each reader operation returns an error (the library panics) or its result and the
  rest of the stream. \<open>TryDecodeAsNil\<close> and \<open>CheckBreak\<close> consume what they test for
  and nothing else. \<open>ReadMapStart\<close> returns the number of entries, negative when the
  map is closed by a break marker. \<open>DecodeBytes\<close> and \<open>DecodeString\<close> read one string;
  nil reads as no bytes.
\<close>

fun TryDecodeAsNil :: "reader \<Rightarrow> error + (bool \<times> reader)" where
  "TryDecodeAsNil [] = Inl UnexpectedEOF"
| "TryDecodeAsNil (Val WNil # r) = Inr (True, r)"
| "TryDecodeAsNil r = Inr (False, r)"

fun ReadMapStart :: "reader \<Rightarrow> error + (int \<times> reader)" where
  "ReadMapStart [] = Inl UnexpectedEOF"
| "ReadMapStart (Val (WMap kvs) # r) = Inr (int (length kvs), flatten kvs @ r)"
| "ReadMapStart (Val (WMapIndef kvs) # r) = Inr (- 1, flatten kvs @ Break # r)"
| "ReadMapStart r = Inl TypeMismatch"

fun CheckBreak :: "reader \<Rightarrow> error + (bool \<times> reader)" where
  "CheckBreak [] = Inl UnexpectedEOF"
| "CheckBreak (Break # r) = Inr (True, r)"
| "CheckBreak r = Inr (False, r)"

fun DecodeBytes :: "reader \<Rightarrow> error + (string \<times> reader)" where
  "DecodeBytes [] = Inl UnexpectedEOF"
| "DecodeBytes (Val (WStr s) # r) = Inr (s, r)"
| "DecodeBytes (Val WNil # r) = Inr ([], r)"
| "DecodeBytes r = Inl TypeMismatch"

definition DecodeString :: "reader \<Rightarrow> error + (string \<times> reader)" where
  "DecodeString r = DecodeBytes r"

text \<open>
  Modelled from the spec: \<open>StringSet.CodecDecodeSelf\<close>, generated code missing from
  the sources. The wire field \<open>controls\<close> is a "sequence of string identifiers": the
  decoder reads one array of strings and the receiver becomes that sequence.
\<close>

fun wire_strings :: "wire list \<Rightarrow> error + string list" where
  "wire_strings [] = Inr []"
| "wire_strings (WStr s # ws) =
     (case wire_strings ws of Inl e \<Rightarrow> Inl e | Inr ss \<Rightarrow> Inr (s # ss))"
| "wire_strings (WNil # ws) =
     (case wire_strings ws of Inl e \<Rightarrow> Inl e | Inr ss \<Rightarrow> Inr ([] # ss))"
| "wire_strings (w # ws) = Inl TypeMismatch"

fun StringSet_CodecDecodeSelf :: "reader \<Rightarrow> error + (StringSet \<times> reader)" where
  "StringSet_CodecDecodeSelf [] = Inl UnexpectedEOF"
| "StringSet_CodecDecodeSelf (Val (WArr ws) # r) =
     (case wire_strings ws of Inl e \<Rightarrow> Inl e | Inr ss \<Rightarrow> Inr (ss, r))"
| "StringSet_CodecDecodeSelf r = Inl TypeMismatch"

subsection \<open>Decoding a NodeControls\<close>

text \<open>
  One pass of the loop body of \<open>NodeControls.CodecDecodeSelf\<close> after the break test:
  read the key, then the value of a key the \<open>switch\<close> knows. \<open>&slc[0]\<close> panics on a
  key of length zero. The \<open>switch\<close> has no default case: after any other key nothing
  more is read. \<open>parseTime\<close> is missing from the sources and is a parameter.
  \<open>DecSendContainerState\<close> only lets the reader of a text format step over a
  separator; it reads no value and has no counterpart here.
\<close>

definition decode_entry ::
  "(string \<Rightarrow> time) \<Rightarrow> NodeControls \<Rightarrow> reader \<Rightarrow> error + (NodeControls \<times> reader)" where
  "decode_entry parseTime nc r =
     (case DecodeBytes r of
        Inl e \<Rightarrow> Inl e
      | Inr (slc, r1) \<Rightarrow>
          if slc = [] then Inl IndexOutOfRange
          else if slc = ''timestamp'' then
            (case DecodeString r1 of
               Inl e \<Rightarrow> Inl e
             | Inr (s, r2) \<Rightarrow> Inr (nc\<lparr>Timestamp := parseTime s\<rparr>, r2))
          else if slc = ''controls'' then
            (case TryDecodeAsNil r1 of
               Inl e \<Rightarrow> Inl e
             | Inr (isnil, r2) \<Rightarrow>
                 if isnil then Inr (nc, r2)
                 else
                   (case StringSet_CodecDecodeSelf r2 of
                      Inl e \<Rightarrow> Inl e
                    | Inr (cs, r3) \<Rightarrow> Inr (nc\<lparr>Controls := cs\<rparr>, r3)))
          else Inr (nc, r1))"

lemma TryDecodeAsNil_length: "TryDecodeAsNil r = Inr (b, r') \<Longrightarrow> length r' \<le> length r"
  by (induction r rule: TryDecodeAsNil.induct) auto

lemma CheckBreak_length: "CheckBreak r = Inr (b, r') \<Longrightarrow> length r' \<le> length r"
  by (induction r rule: CheckBreak.induct) auto

lemma DecodeBytes_length: "DecodeBytes r = Inr (s, r') \<Longrightarrow> length r' < length r"
  by (induction r rule: DecodeBytes.induct) auto

lemma StringSet_CodecDecodeSelf_length:
  "StringSet_CodecDecodeSelf r = Inr (cs, r') \<Longrightarrow> length r' < length r"
  by (induction r rule: StringSet_CodecDecodeSelf.induct) (auto split: sum.splits)

lemma decode_entry_length:
  "decode_entry p nc r = Inr (nc', r') \<Longrightarrow> length r' < length r"
  unfolding decode_entry_def DecodeString_def
  by (auto split: sum.splits if_splits prod.splits
      dest!: DecodeBytes_length TryDecodeAsNil_length StringSet_CodecDecodeSelf_length)

text \<open>
  The loop \<open>for i := 0; length < 0 || i < length; i++\<close>. Every pass that does not
  stop consumes a value, so the loop ends also when \<open>length\<close> is negative.
\<close>

function decode_loop ::
  "(string \<Rightarrow> time) \<Rightarrow> int \<Rightarrow> int \<Rightarrow> NodeControls \<Rightarrow> reader \<Rightarrow> error + (NodeControls \<times> reader)" where
  "decode_loop parseTime len i nc r =
     (if len < 0 \<or> i < len then
        (case (if len < 0 then CheckBreak r else Inr (False, r)) of
           Inl e \<Rightarrow> Inl e
         | Inr (brk, r1) \<Rightarrow>
             if brk then Inr (nc, r1)
             else
               (case decode_entry parseTime nc r1 of
                  Inl e \<Rightarrow> Inl e
                | Inr (nc', r2) \<Rightarrow> decode_loop parseTime len (i + 1) nc' r2))
      else Inr (nc, r))"
  by pat_completeness auto
termination
proof (relation "measure (\<lambda>(p, len, i, nc, r). if len < 0 then length r else nat (len - i))")
  show "wf (measure (\<lambda>(p, len, i, nc, r). if len < 0 then length r else nat (len - i)))"
    by simp
next
  fix parseTime :: "string \<Rightarrow> time" and len i :: int and nc :: NodeControls and r :: reader
    and x2 :: "bool \<times> reader" and brk r1 and x2a :: "NodeControls \<times> reader" and nc' r2
  assume c: "len < 0 \<or> i < len"
    and a: "(if len < 0 then CheckBreak r else Inr (False, r)) = Inr x2"
    and b: "(brk, r1) = x2" "\<not> brk"
    and d: "decode_entry parseTime nc r1 = Inr x2a" "(nc', r2) = x2a"
  have "length r1 \<le> length r"
    using a b CheckBreak_length[of r brk r1] by (auto split: if_splits)
  moreover have "length r2 < length r1"
    using d decode_entry_length[of parseTime nc r1 nc' r2] by simp
  ultimately show "((parseTime, len, i + 1, nc', r2), (parseTime, len, i, nc, r))
      \<in> measure (\<lambda>(p, len, i, nc, r). if len < 0 then length r else nat (len - i))"
    using c by auto
qed

definition CodecDecodeSelf ::
  "(string \<Rightarrow> time) \<Rightarrow> NodeControls \<Rightarrow> reader \<Rightarrow> error + (NodeControls \<times> reader)" where
  "CodecDecodeSelf parseTime nc r =
     (case TryDecodeAsNil r of
        Inl e \<Rightarrow> Inl e
      | Inr (isnil, r1) \<Rightarrow>
          if isnil then Inr (nc, r1)
          else
            (case ReadMapStart r1 of
               Inl e \<Rightarrow> Inl e
             | Inr (len, r2) \<Rightarrow> decode_loop parseTime len 0 nc r2))"

subsection \<open>Encoding a NodeControls\<close>

text \<open>
  \<open>wireNodeControls\<close> is the struct handed to the encoder. Both fields carry the tag
  \<open>omitempty\<close>: the encoder writes a map with an entry \<open>timestamp\<close> unless the string
  is empty, then an entry \<open>controls\<close> unless the slice is empty. \<open>renderTime\<close> is
  missing from the sources and is a parameter.
\<close>

record wireNodeControls =
  wire_Timestamp :: string
  wire_Controls :: StringSet

definition Encode :: "wireNodeControls \<Rightarrow> wire" where
  "Encode w =
     WMap ((if wire_Timestamp w = [] then []
            else [(WStr ''timestamp'', WStr (wire_Timestamp w))]) @
           (if wire_Controls w = [] then []
            else [(WStr ''controls'', WArr (map WStr (wire_Controls w)))]))"

definition CodecEncodeSelf :: "(time \<Rightarrow> string) \<Rightarrow> NodeControls \<Rightarrow> wire" where
  "CodecEncodeSelf renderTime nc =
     Encode \<lparr>wire_Timestamp = renderTime (Timestamp nc), wire_Controls = Controls nc\<rparr>"

text \<open>The value of a field of an encoded object, if the object has the field.\<close>

definition field :: "wire \<Rightarrow> string \<Rightarrow> wire option" where
  "field w k =
     (case w of
        WMap kvs \<Rightarrow> map_of kvs (WStr k)
      | WMapIndef kvs \<Rightarrow> map_of kvs (WStr k)
      | _ \<Rightarrow> None)"

subsection \<open>Payloads made of the two wire fields\<close>





subsection \<open>Values for the examples\<close>

text \<open>
  \<open>renderTime\<close> and \<open>parseTime\<close> are parameters of the model. The examples use a
  pair in the layout of Go's \<open>time.RFC3339Nano\<close>, tabulated at the zero time and the
  two seconds after it; a string outside the table parses to the zero time.
\<close>

definition renderTime_example :: "time \<Rightarrow> string" where
  "renderTime_example t =
     (if t = 0 then ''0001-01-01T00:00:00Z''
      else if t = 1000000000 then ''0001-01-01T00:00:01Z''
      else ''0001-01-01T00:00:02Z'')"


definition ctrlA :: Control where
  "ctrlA = \<lparr>ID = ''c1'', Human = ''Restart'', Icon = ''fa-repeat'', Rank = 1\<rparr>"

definition ctrlB :: Control where
  "ctrlB = \<lparr>ID = ''c1'', Human = ''Stop'', Icon = ''fa-stop'', Rank = 2\<rparr>"

section \<open>Properties\<close>

subsection \<open>Auxiliary facts\<close>

lemma set_StringSet_Add: "set (StringSet_Add s strs) = set s \<union> set strs"
  unfolding StringSet_Add_def
  by (induction strs arbitrary: s) auto



declare decode_loop.simps [simp del]

lemma decode_loop_done: "0 \<le> len \<Longrightarrow> len \<le> i \<Longrightarrow> decode_loop p len i nc r = Inr (nc, r)"
  by (subst decode_loop.simps) simp

lemma decode_loop_step:
  "0 \<le> len \<Longrightarrow> i < len \<Longrightarrow>
   decode_loop p len i nc r =
     (case decode_entry p nc r of
        Inl e \<Rightarrow> Inl e
      | Inr (nc', r2) \<Rightarrow> decode_loop p len (i + 1) nc' r2)"
  by (subst decode_loop.simps) simp






lemma decode_entry_unknown:
  "k \<noteq> [] \<Longrightarrow> k \<noteq> ''timestamp'' \<Longrightarrow> k \<noteq> ''controls'' \<Longrightarrow>
   decode_entry p nc (Val (WStr k) # r) = Inr (nc, r)"
  by (simp add: decode_entry_def)





lemma CodecDecodeSelf_map:
  "CodecDecodeSelf p nc (Val (WMap kvs) # r) = decode_loop p (int (length kvs)) 0 nc (flatten kvs @ r)"
  by (simp add: CodecDecodeSelf_def)












lemma length_store [simp]: "length (store a kv h) = length h"
  by (simp add: store_def)

lemma length_store_all [simp]: "length (store_all a kvs h) = length h"
  unfolding store_all_def by (induction kvs arbitrary: h) simp_all

lemma store_other: "b \<noteq> a \<Longrightarrow> store a kv h ! b = h ! b"
  by (simp add: store_def)

lemma store_all_other: "b \<noteq> a \<Longrightarrow> store_all a kvs h ! b = h ! b"
  unfolding store_all_def by (induction kvs arbitrary: h) (simp_all add: store_other)

lemma store_all_at:
  "a < length h \<Longrightarrow> map_of (store_all a kvs h ! a) = map_of (h ! a) ++ map_of (rev kvs)"
  unfolding store_all_def
proof (induction kvs arbitrary: h)
  case Nil
  then show ?case by simp
next
  case (Cons kv kvs)
  have "a < length (store a kv h)" using Cons.prems by simp
  from Cons.IH[OF this] show ?case using Cons.prems
    by (cases kv) (simp add: store_def update_conv' fun_eq_iff map_add_def split: option.splits)
qed

lemma store_all_distinct:
  "a < length h \<Longrightarrow> distinct (map fst (h ! a)) \<Longrightarrow> distinct (map fst (store_all a kvs h ! a))"
  unfolding store_all_def
proof (induction kvs arbitrary: h)
  case Nil
  then show ?case by simp
next
  case (Cons kv kvs)
  have "a < length (store a kv h)" using Cons.prems by simp
  moreover have "distinct (map fst (store a kv h ! a))"
    using Cons.prems by (simp add: store_def distinct_update)
  ultimately show ?case using Cons.IH by simp
qed

lemma map_of_rev_distinct: "distinct (map fst kvs) \<Longrightarrow> map_of (rev kvs) = map_of kvs"
  by (simp add: map_of_inject_set distinct_rev rev_map[symmetric])

lemma entries_distinct: "wf_heap h \<Longrightarrow> distinct (map fst (entries h cs))"
  by (auto simp: wf_heap_def entries_def list_all_length split: option.splits)

lemma entries_append: "valid_ref h cs \<Longrightarrow> entries (h @ h') cs = entries h cs"
  by (auto simp: valid_ref_def entries_def nth_append split: option.splits)

lemma take_store_all: "length h \<le> a \<Longrightarrow> take (length h) (store_all a kvs (h @ h')) = h"
  by (rule nth_equalityI) (simp_all add: store_all_other nth_append)

lemma Controls_Copy_eq:
  "Controls_Copy h cs = (length h, store_all (length h) (entries (h @ [[]]) cs) (h @ [[]]))"
  by (simp add: Controls_Copy_def new_map_def)

lemma Controls_Copy_frame:
  "fst (Controls_Copy h cs) = length h \<and>
   length (snd (Controls_Copy h cs)) = Suc (length h) \<and>
   take (length h) (snd (Controls_Copy h cs)) = h"
  by (simp add: Controls_Copy_eq take_store_all)

lemma Controls_Copy_content:
  assumes "wf_heap h" "valid_ref h cs"
  shows "map_of (snd (Controls_Copy h cs) ! length h) = map_of (entries h cs)"
    and "distinct (map fst (snd (Controls_Copy h cs) ! length h))"
proof -
  have e: "entries (h @ [[]]) cs = entries h cs"
    using assms(2) by (rule entries_append)
  have d: "distinct (map fst (entries h cs))"
    using assms(1) by (rule entries_distinct)
  show "map_of (snd (Controls_Copy h cs) ! length h) = map_of (entries h cs)"
    by (simp add: Controls_Copy_eq e store_all_at map_of_rev_distinct[OF d])
  show "distinct (map fst (snd (Controls_Copy h cs) ! length h))"
    by (simp add: Controls_Copy_eq store_all_distinct)
qed

subsection \<open>NodeControls.Merge\<close>

text \<open>
  C1. \<open>NodeControls.Merge\<close> is last-writer-wins on the whole snapshot: when the
  receiver's timestamp is strictly earlier than the other's, the result is the other
  value, control set included; on a tie or when the receiver is later, the result is
  the receiver.
\<close>

theorem C1_merge_last_writer_wins:
  "NodeControls_Merge a b = (if Timestamp a < Timestamp b then b else a)"
  by (simp add: NodeControls_Merge_def Before_def)

text \<open>
  C3, as amended. The two orders of \<open>Merge\<close> disagree exactly when the timestamps are
  equal and the two values differ (each order then keeps its receiver). When the
  timestamps differ, both orders return the later snapshot, so they agree.
\<close>

theorem C3_merge_symmetry:
  "(NodeControls_Merge a b \<noteq> NodeControls_Merge b a) =
     (Timestamp a = Timestamp b \<and> a \<noteq> b)"
  by (auto simp: NodeControls_Merge_def Before_def)

text \<open>
  C3 as stated fails: two snapshots with different timestamps on which both orders of
  \<open>Merge\<close> return the same value, the later snapshot; and no pair with different
  timestamps tells the two orders apart.
\<close>

theorem C3_asymmetry_counterexample:
  "Timestamp \<lparr>Timestamp = 1000000000, Controls = [''restart'']\<rparr> \<noteq>
     Timestamp \<lparr>Timestamp = 2000000000, Controls = [''pause'', ''resume'']\<rparr> \<and>
   NodeControls_Merge \<lparr>Timestamp = 1000000000, Controls = [''restart'']\<rparr>
       \<lparr>Timestamp = 2000000000, Controls = [''pause'', ''resume'']\<rparr> =
     \<lparr>Timestamp = 2000000000, Controls = [''pause'', ''resume'']\<rparr> \<and>
   NodeControls_Merge \<lparr>Timestamp = 2000000000, Controls = [''pause'', ''resume'']\<rparr>
       \<lparr>Timestamp = 1000000000, Controls = [''restart'']\<rparr> =
     \<lparr>Timestamp = 2000000000, Controls = [''pause'', ''resume'']\<rparr> \<and>
   \<not> (\<exists>a b. Timestamp a \<noteq> Timestamp b \<and> NodeControls_Merge a b \<noteq> NodeControls_Merge b a)"
  by (auto simp: NodeControls_Merge_def Before_def)

subsection \<open>NodeControls.Add\<close>

text \<open>
  C8, as amended. \<open>Add\<close> returns a value whose control set holds the members of the
  receiver's set and the given identifiers, and whose timestamp is the clock reading
  taken by the call. That timestamp is at least (strictly after) the receiver's exactly
  when the receiver's timestamp is not after (is before) the clock reading. The
  function returns a new value; its argument is not written.
\<close>

theorem C8_add:
  "set (Controls (NodeControls_Add now s ids)) = set (Controls s) \<union> set ids \<and>
   Timestamp (NodeControls_Add now s ids) = now \<and>
   (Timestamp s \<le> Timestamp (NodeControls_Add now s ids)) = (Timestamp s \<le> now) \<and>
   (Timestamp s < Timestamp (NodeControls_Add now s ids)) = (Timestamp s < now)"
  by (simp add: NodeControls_Add_def set_StringSet_Add)

text \<open>
  C8 as stated fails for a receiver stamped ahead of the local clock (a snapshot
  from a host whose clock runs ahead): the result is stamped earlier than the receiver.
\<close>

theorem C8_timestamp_counterexample:
  "Timestamp (NodeControls_Add 1000000000 \<lparr>Timestamp = 2000000000, Controls = [''restart'']\<rparr> [''pause''])
     < Timestamp \<lparr>Timestamp = 2000000000, Controls = [''restart'']\<rparr>"
  by (simp add: NodeControls_Add_def)

subsection \<open>Controls.Merge\<close>

text \<open>
  C9. In a heap whose map objects have distinct keys, for catalogs \<open>A\<close> and \<open>B\<close> of
  that heap (nil included), \<open>A.Merge(B)\<close> returns a freshly allocated catalog that maps
  a key to \<open>B\<close>'s value when \<open>B\<close> has the key and to \<open>A\<close>'s value otherwise; every
  object that existed before the call, \<open>A\<close> and \<open>B\<close> among them, is unchanged.
\<close>

theorem C9_catalog_merge:
  assumes "wf_heap h" and "valid_ref h A" and "valid_ref h B"
  shows "fst (Controls_Merge h A B) = Some (length h) \<and>
         lookup (snd (Controls_Merge h A B)) (fst (Controls_Merge h A B)) k =
           (case lookup h B k of Some v \<Rightarrow> Some v | None \<Rightarrow> lookup h A k) \<and>
         take (length h) (snd (Controls_Merge h A B)) = h \<and>
         entries (snd (Controls_Merge h A B)) A = entries h A \<and>
         entries (snd (Controls_Merge h A B)) B = entries h B \<and>
         wf_heap (snd (Controls_Merge h A B))"
proof -
  define h1 where "h1 = snd (Controls_Copy h A)"
  define h2 where "h2 = store_all (length h) (entries h1 B) h1"
  have copy: "Controls_Copy h A = (length h, h1)"
    using Controls_Copy_frame[of h A] by (simp add: h1_def prod_eq_iff)
  have merge: "Controls_Merge h A B = (Some (length h), h2)"
    by (simp add: Controls_Merge_def copy h2_def)
  have len1: "length h1 = Suc (length h)" and take1: "take (length h) h1 = h"
    using Controls_Copy_frame[of h A] by (simp_all add: h1_def)
  have h1_split: "h1 = h @ [h1 ! length h]"
    using len1 take1 by (metis lessI take_Suc_conv_app_nth take_all le_refl)
  have eB1: "entries h1 B = entries h B"
    using entries_append[OF assms(3), of "[h1 ! length h]"] h1_split by simp
  have eA1: "entries h1 A = entries h A"
    using entries_append[OF assms(2), of "[h1 ! length h]"] h1_split by simp
  have dB: "distinct (map fst (entries h B))"
    using assms(1) by (rule entries_distinct)
  have len2: "length h2 = Suc (length h)"
    by (simp add: h2_def len1)
  have old2: "\<And>b. b < length h \<Longrightarrow> h2 ! b = h ! b"
  proof -
    fix b assume b: "b < length h"
    then have "h2 ! b = h1 ! b" by (simp add: h2_def store_all_other)
    also have "\<dots> = h ! b" using b take1 by (metis nth_take)
    finally show "h2 ! b = h ! b" .
  qed
  have take2: "take (length h) h2 = h"
    by (rule nth_equalityI) (simp_all add: len2 old2)
  have c1: "map_of (h1 ! length h) = map_of (entries h A)"
    and d1: "distinct (map fst (h1 ! length h))"
    unfolding h1_def using Controls_Copy_content[OF assms(1,2)] by simp_all
  have new2: "map_of (h2 ! length h) = map_of (entries h A) ++ map_of (entries h B)"
    by (simp add: h2_def store_all_at len1 eB1 map_of_rev_distinct[OF dB] c1)
  have dnew: "distinct (map fst (h2 ! length h))"
    by (simp add: h2_def store_all_distinct len1 d1)
  have h2_split: "h2 = h @ [h2 ! length h]"
    using len2 take2 by (metis lessI take_Suc_conv_app_nth take_all le_refl)
  have eA2: "entries h2 A = entries h A"
    using entries_append[OF assms(2), of "[h2 ! length h]"] h2_split by simp
  have eB2: "entries h2 B = entries h B"
    using entries_append[OF assms(3), of "[h2 ! length h]"] h2_split by simp
  have look: "lookup h2 (Some (length h)) k =
      (case lookup h B k of Some v \<Rightarrow> Some v | None \<Rightarrow> lookup h A k)"
  proof -
    have "entries h2 (Some (length h)) = h2 ! length h"
      by (simp add: entries_def len2)
    then show ?thesis
      by (simp add: lookup_def new2 map_add_def split: option.splits)
  qed
  have wf2: "wf_heap h2"
  proof -
    have "wf_heap (h @ [h2 ! length h])"
      using assms(1) dnew by (simp add: wf_heap_def)
    then show ?thesis using h2_split by simp
  qed
  show ?thesis
    by (simp add: merge look take2 eA2 eB2 wf2)
qed

theorem C9_catalog_merge_witness:
  "wf_heap [[(''c1'', ctrlA)], [(''c1'', ctrlB)]] \<and>
   valid_ref [[(''c1'', ctrlA)], [(''c1'', ctrlB)]] (Some 0) \<and>
   valid_ref [[(''c1'', ctrlA)], [(''c1'', ctrlB)]] (Some 1) \<and>
   Controls_Merge [[(''c1'', ctrlA)], [(''c1'', ctrlB)]] (Some 0) (Some 1) =
     (Some 2, [[(''c1'', ctrlA)], [(''c1'', ctrlB)], [(''c1'', ctrlB)]]) \<and>
   lookup (snd (Controls_Merge [[(''c1'', ctrlA)], [(''c1'', ctrlB)]] (Some 0) (Some 1)))
     (fst (Controls_Merge [[(''c1'', ctrlA)], [(''c1'', ctrlB)]] (Some 0) (Some 1))) ''c1'' = Some ctrlB"
  using C9_catalog_merge [of "[[(''c1'', ctrlA)], [(''c1'', ctrlB)]]" "Some 0" "Some 1" "''c1''"]
  by (simp add: wf_heap_def valid_ref_def Controls_Merge_def Controls_Copy_def new_map_def
      store_all_def store_def entries_def lookup_def numeral_2_eq_2)

subsection \<open>The codec\<close>

text \<open>
  C2, on the failing input. With an entry \<open>foo\<close> before the entry \<open>controls\<close>, the
  value of \<open>foo\<close> is not consumed: the second pass of the loop reads it as a key, the
  loop ends, and the entry \<open>controls\<close> is left unread in the stream. The result has an
  empty control set, where the payload without \<open>foo\<close> decodes to the set
  \<open>{restart}\<close>. When the value of \<open>foo\<close> is not a string, decoding fails.
\<close>

theorem C2_unknown_field_not_skipped:
  "CodecDecodeSelf p MakeNodeControls
     [Val (WMap [(WStr ''foo'', WStr ''bar''), (WStr ''controls'', WArr [WStr ''restart''])])] =
     Inr (MakeNodeControls, [Val (WStr ''controls''), Val (WArr [WStr ''restart''])]) \<and>
   CodecDecodeSelf p MakeNodeControls
     [Val (WMap [(WStr ''controls'', WArr [WStr ''restart''])])] =
     Inr (\<lparr>Timestamp = zero_time, Controls = [''restart'']\<rparr>, []) \<and>
   CodecDecodeSelf p MakeNodeControls
     [Val (WMap [(WStr ''foo'', WInt 1), (WStr ''controls'', WArr [WStr ''restart''])])] =
     Inl TypeMismatch"
  by (simp add: CodecDecodeSelf_map decode_loop_step decode_loop_done decode_entry_def
      MakeNodeControls_def emptyNodeControls_def MakeStringSet_def)





text \<open>
  C6, as amended. The encoded object has the field \<open>timestamp\<close> exactly when the
  rendered timestamp is a non-empty string, and then the field holds that string; it has
  the field \<open>controls\<close> exactly when the control set is not empty; it has no other
  field. Encoding \<open>MakeNodeControls()\<close> omits \<open>controls\<close>, and omits \<open>timestamp\<close>
  exactly when \<open>renderTime\<close> renders the zero time as the empty string.
\<close>

theorem C6_field_presence:
  "field (CodecEncodeSelf renderTime nc) ''timestamp'' =
     (if renderTime (Timestamp nc) = [] then None
      else Some (WStr (renderTime (Timestamp nc)))) \<and>
   field (CodecEncodeSelf renderTime nc) ''controls'' =
     (if Controls nc = [] then None else Some (WArr (map WStr (Controls nc)))) \<and>
   (field (CodecEncodeSelf renderTime nc) k \<noteq> None) =
     (k = ''timestamp'' \<and> renderTime (Timestamp nc) \<noteq> [] \<or>
      k = ''controls'' \<and> Controls nc \<noteq> []) \<and>
   field (CodecEncodeSelf renderTime MakeNodeControls) ''controls'' = None \<and>
   (field (CodecEncodeSelf renderTime MakeNodeControls) ''timestamp'' = None) =
     (renderTime zero_time = [])"
  by (simp add: field_def CodecEncodeSelf_def Encode_def MakeNodeControls_def
      emptyNodeControls_def MakeStringSet_def)

text \<open>
  C6 as stated fails with a renderer that, like Go's time formatting, gives the zero
  time a non-empty string: the encoding of the unset value then has the field
  \<open>timestamp\<close>.
\<close>

theorem C6_sentinel_timestamp_counterexample:
  "Timestamp MakeNodeControls = zero_time \<and>
   field (CodecEncodeSelf renderTime_example MakeNodeControls) ''timestamp'' =
     Some (WStr ''0001-01-01T00:00:00Z'')"
  by (simp add: field_def CodecEncodeSelf_def Encode_def MakeNodeControls_def
      emptyNodeControls_def MakeStringSet_def renderTime_example_def zero_time_def)

text \<open>
  C7. \<open>MarshalJSON\<close> and \<open>UnmarshalJSON\<close> panic on every receiver and every input;
  neither ever returns a result.
\<close>

theorem C7_json_entry_points_panic:
  "MarshalJSON nc = Inl (Panic ''MarshalJSON shouldn't be used, use CodecEncodeSelf instead'') \<and>
   UnmarshalJSON nc b =
     Inl (Panic ''UnmarshalJSON shouldn't be used, use CodecDecodeSelf instead'')"
  by (simp add: MarshalJSON_def UnmarshalJSON_def)



end
